theory Spec2Isabelle
  imports Complex_Main
begin

section \<open>Order lifecycle, delivery control and specialised orders of the pet-food backend\<close>

text \<open>
  The development embeds the request handlers of
  \<^verbatim>\<open>backend/routers/admin/pedidos.py\<close>, \<^verbatim>\<open>backend/routers/repartidor.py\<close> and
  \<^verbatim>\<open>backend/routers/cliente/pedido.py\<close> over the tables declared in
  \<^verbatim>\<open>backend/models.py\<close>.

  Conventions of the embedding.
  \<^item> Identifiers travel through the handlers as Python \<^verbatim>\<open>str\<close> (path parameters and the
    result of \<^verbatim>\<open>keygen.generate_uint64_key\<close>); they are strings here and the store compares
    them by equality.
  \<^item> A table is the list of its rows. \<^verbatim>\<open>query.filter(c).first()\<close> is \<^const>\<open>find\<close>;
    an attribute assignment on the object that \<^verbatim>\<open>first()\<close> returned rewrites that row.
  \<^item> A handler runs in a session opened by \<^verbatim>\<open>get_db\<close>: \<^verbatim>\<open>db.add\<close>, \<^verbatim>\<open>db.flush\<close> and
    attribute assignments change the pending state only, \<^verbatim>\<open>db.commit\<close> makes the pending
    state the committed one, and a handler that raises leaves the committed state as it
    was (the session is closed without commit). Constraint failures of the store itself
    are not modelled: \<^verbatim>\<open>commit\<close> succeeds.
  \<^item> \<^verbatim>\<open>raise HTTPException(status_code, detail)\<close> is the value \<open>Inl (HTTPException code detail)\<close>;
    any other Python exception that leaves the handler is \<open>Inl (Unhandled name)\<close>.
  \<^item> The random key generator, the clock, the Python built-ins \<^verbatim>\<open>json.loads\<close>,
    \<^verbatim>\<open>int\<close>, \<^verbatim>\<open>str\<close> and \<^verbatim>\<open>datetime.fromisoformat\<close>, and the price of a dish are
    inputs, collected in an environment; the session counts how many keys and clock
    readings it has taken.
  \<^item> A handler reads a global name in the namespace of its own module, which holds what
    the module imports and what it defines at top level. Reading a name that is not
    there (and is no built-in) raises \<^verbatim>\<open>NameError\<close>; a call evaluates the callee's name
    before its arguments. Each place where a handler reads a name that its module does
    not bind is a branch of the handler's definition. What follows such a place is
    written out as the source has it.
  \<^item> Characters outside ASCII in message literals are written by code point
    (\<open>CHR 0xE1\<close> is a-acute, \<open>CHR 0xF3\<close> is o-acute).
\<close>

subsection \<open>Rows and tables (models.py)\<close>

type_synonym ident = string
type_synonym datetime = nat

record Cliente =
  cl_id :: ident

record Direccion =
  di_id :: ident
  di_cliente_id :: ident

record Repartidor =
  re_id :: ident
  re_nombre :: string
  re_telefono :: string

record RegistroMascota =
  rm_id :: ident
  rm_cliente_id :: ident

record Pedido =
  pe_id :: ident
  pe_cliente_id :: ident
  pe_fecha :: datetime
  pe_total :: real
  pe_incluye_plato :: bool
  pe_estado :: string
  pe_direccion_id :: "ident option"

record ControlEntrega =
  ce_id :: ident
  ce_pedido_id :: ident
  ce_fecha_entrega :: datetime
  ce_confirmacion_entrega :: int
  ce_repartidor_id :: "ident option"

text \<open>
  A decoded JSON value, as \<^verbatim>\<open>json.loads\<close> returns it. The attributes \<^verbatim>\<open>nombre\<close> and
  \<^verbatim>\<open>descripcion\<close> of the condition and preference rows receive whatever value the
  client's object holds under that key, so those columns carry a JSON value.
\<close>

datatype json =
    JNull
  | JBool bool
  | JInt int
  | JFloat real
  | JStr string
  | JList "json list"
  | JDict "(string \<times> json) list"

record DetallePedido =
  dp_id :: ident
  dp_pedido_id :: ident
  dp_cantidad :: int
  dp_subtotal :: real
  dp_plato_combinado_id :: "ident option"

record PedidoEspecializado =
  es_id :: ident
  es_pedido_id :: ident
  es_registro_mascota_id :: ident
  es_frecuencia_cantidad :: string
  es_objetivo_dieta :: string
  es_indicaciones_adicionales :: "string option"
  es_consulta_nutricionista :: int
  es_estado_registro :: string
  es_archivo_adicional :: "string option"

record RecetaMedica =
  rc_id :: ident
  rc_registro_mascota_id :: ident
  rc_pedido_especializado_id :: ident
  rc_fecha :: datetime
  rc_estado_registro :: string
  rc_archivo :: string

record AlergiaMascota =
  al_id :: ident
  al_registro_mascota_id :: ident
  al_alergia_especie_id :: int
  al_severidad :: string
  al_estado_registro :: string

record DescripcionAlergias =
  da_id :: ident
  da_registro_mascota_id :: ident
  da_descripcion :: string
  da_fecha :: datetime
  da_estado_registro :: string

record CondicionSalud =
  cs_id :: ident
  cs_registro_mascota_id :: ident
  cs_nombre :: json
  cs_fecha :: datetime
  cs_estado_registro :: string

record PreferenciaAlimentaria =
  pa_id :: ident
  pa_registro_mascota_id :: ident
  pa_nombre :: json
  pa_estado_registro :: string
  pa_descripcion :: json

record database =
  t_cliente :: "Cliente list"
  t_direccion :: "Direccion list"
  t_repartidor :: "Repartidor list"
  t_registro_mascota :: "RegistroMascota list"
  t_pedido :: "Pedido list"
  t_control_entrega :: "ControlEntrega list"
  t_detalle_pedido :: "DetallePedido list"
  t_pedido_especializado :: "PedidoEspecializado list"
  t_receta_medica :: "RecetaMedica list"
  t_alergia_mascota :: "AlergiaMascota list"
  t_descripcion_alergias :: "DescripcionAlergias list"
  t_condicion_salud :: "CondicionSalud list"
  t_preferencia_alimentaria :: "PreferenciaAlimentaria list"

definition db_vacia :: database where
  "db_vacia = \<lparr>t_cliente = [], t_direccion = [], t_repartidor = [], t_registro_mascota = [],
     t_pedido = [], t_control_entrega = [], t_detalle_pedido = [],
     t_pedido_especializado = [], t_receta_medica = [], t_alergia_mascota = [],
     t_descripcion_alergias = [], t_condicion_salud = [], t_preferencia_alimentaria = []\<rparr>"

subsection \<open>Session, key generator and clock\<close>

datatype http_error = HTTPException nat string | Unhandled string

text \<open>
  \<open>written\<close> lists the files the handler has written to disk (path, contents); the
  disk is not part of the transaction.
\<close>

record session =
  committed :: database
  pending :: database
  written :: "(string \<times> string) list"
  drawn :: nat
  ticks :: nat

text \<open>
  \<open>key_at env n\<close> is the \<open>n\<close>-th key the generator returns in this request and
  \<open>time_at env n\<close> the \<open>n\<close>-th reading of the clock. \<open>json_loads\<close> is \<open>None\<close> where
  \<^verbatim>\<open>json.loads\<close> raises, \<open>py_int\<close> is \<open>Inl name\<close> where \<^verbatim>\<open>int(x)\<close> raises the exception
  \<open>name\<close>, \<open>fromisoformat\<close> is \<open>None\<close> where \<^verbatim>\<open>datetime.fromisoformat(x)\<close> raises.
  \<open>precio_plato\<close> stands for \<^verbatim>\<open>db.query(Plato).get(id).precio\<close>, \<open>None\<close> where no such
  dish exists: no module of the repository declares a class \<^verbatim>\<open>Plato\<close>.
\<close>

record sysenv =
  key_at :: "nat \<Rightarrow> ident"
  time_at :: "nat \<Rightarrow> datetime"
  json_loads :: "string \<Rightarrow> json option"
  py_int :: "json \<Rightarrow> string + int"
  py_str :: "json \<Rightarrow> string"
  fromisoformat :: "json \<Rightarrow> datetime option"
  precio_plato :: "ident \<Rightarrow> real option"

definition get_db :: "database \<Rightarrow> session" where
  "get_db db = \<lparr>committed = db, pending = db, written = [], drawn = 0, ticks = 0\<rparr>"

definition db_commit :: "session \<Rightarrow> session" where
  "db_commit s = s\<lparr>committed := pending s\<rparr>"

definition generate_uint64_key :: "sysenv \<Rightarrow> session \<Rightarrow> ident \<times> session" where
  "generate_uint64_key env s = (key_at env (drawn s), s\<lparr>drawn := Suc (drawn s)\<rparr>)"

definition datetime_now :: "sysenv \<Rightarrow> session \<Rightarrow> datetime \<times> session" where
  "datetime_now env s = (time_at env (ticks s), s\<lparr>ticks := Suc (ticks s)\<rparr>)"

fun update_first :: "('a \<Rightarrow> bool) \<Rightarrow> ('a \<Rightarrow> 'a) \<Rightarrow> 'a list \<Rightarrow> 'a list" where
  "update_first P f [] = []"
| "update_first P f (x # xs) = (if P x then f x # xs else x # update_first P f xs)"

definition query_pedido :: "session \<Rightarrow> ident \<Rightarrow> Pedido option" where
  "query_pedido s pedido_id = find (\<lambda>p. pe_id p = pedido_id) (t_pedido (pending s))"

definition query_control :: "session \<Rightarrow> ident \<Rightarrow> ControlEntrega option" where
  "query_control s pedido_id =
     find (\<lambda>c. ce_pedido_id c = pedido_id) (t_control_entrega (pending s))"

definition query_repartidor :: "session \<Rightarrow> ident \<Rightarrow> Repartidor option" where
  "query_repartidor s repartidor_id =
     find (\<lambda>r. re_id r = repartidor_id) (t_repartidor (pending s))"

definition query_cliente :: "session \<Rightarrow> ident \<Rightarrow> Cliente option" where
  "query_cliente s cliente_id = find (\<lambda>c. cl_id c = cliente_id) (t_cliente (pending s))"

definition query_direccion :: "session \<Rightarrow> ident option \<Rightarrow> ident \<Rightarrow> Direccion option" where
  "query_direccion s direccion_id cliente_id =
     find (\<lambda>d. Some (di_id d) = direccion_id \<and> di_cliente_id d = cliente_id)
       (t_direccion (pending s))"

definition query_mascota :: "session \<Rightarrow> ident \<Rightarrow> ident \<Rightarrow> RegistroMascota option" where
  "query_mascota s registro_mascota_id cliente_id =
     find (\<lambda>m. rm_id m = registro_mascota_id \<and> rm_cliente_id m = cliente_id)
       (t_registro_mascota (pending s))"

definition set_pedido :: "ident \<Rightarrow> (Pedido \<Rightarrow> Pedido) \<Rightarrow> session \<Rightarrow> session" where
  "set_pedido pedido_id f s =
     s\<lparr>pending := (pending s)\<lparr>t_pedido :=
          update_first (\<lambda>p. pe_id p = pedido_id) f (t_pedido (pending s))\<rparr>\<rparr>"

definition set_control :: "ident \<Rightarrow> (ControlEntrega \<Rightarrow> ControlEntrega) \<Rightarrow> session \<Rightarrow> session" where
  "set_control pedido_id f s =
     s\<lparr>pending := (pending s)\<lparr>t_control_entrega :=
          update_first (\<lambda>c. ce_pedido_id c = pedido_id) f (t_control_entrega (pending s))\<rparr>\<rparr>"

definition add_control :: "ControlEntrega \<Rightarrow> session \<Rightarrow> session" where
  "add_control c s =
     s\<lparr>pending := (pending s)\<lparr>t_control_entrega := t_control_entrega (pending s) @ [c]\<rparr>\<rparr>"

subsection \<open>Module namespaces\<close>

text \<open>
  The global names of the three router modules: the names their \<^verbatim>\<open>import\<close> statements
  bind, \<^verbatim>\<open>router\<close>, and the handlers they define. \<^verbatim>\<open>admin/pedidos.py\<close> imports
  \<^verbatim>\<open>Pedido\<close>, \<^verbatim>\<open>ControlEntrega\<close> and \<^verbatim>\<open>Repartidor\<close> from \<^verbatim>\<open>models\<close> and does not import
  \<^verbatim>\<open>datetime\<close>; \<^verbatim>\<open>repartidor.py\<close> and \<^verbatim>\<open>cliente/pedido.py\<close> import \<^verbatim>\<open>datetime\<close> and
  nothing from \<^verbatim>\<open>models\<close>.
\<close>

definition modulo_admin_pedidos :: "string list" where
  "modulo_admin_pedidos =
     [''APIRouter'', ''Depends'', ''HTTPException'', ''Query'', ''get_db'', ''keygen'',
      ''joinedload'', ''Session'', ''Pedido'', ''ControlEntrega'', ''Repartidor'', ''router'',
      ''listar_pedidos_admin'', ''obtener_detalle_pedido_admin'', ''actualizar_estado_pedido'',
      ''asignar_pedido_a_repartidor'', ''listar_pedidos_asignados'',
      ''listar_pedidos_especializados_admin'', ''obtener_control_entrega'']"

definition modulo_repartidor :: "string list" where
  "modulo_repartidor =
     [''joinedload'', ''Session'', ''APIRouter'', ''Depends'', ''HTTPException'', ''keygen'',
      ''get_db'', ''datetime'', ''router'', ''listar_pedidos_asignados'',
      ''obtener_detalle_pedido_asignado'', ''marcar_pedido_completado'',
      ''marcar_pedido_devuelto'', ''listar_historial_entregas'']"

definition modulo_cliente_pedido :: "string list" where
  "modulo_cliente_pedido =
     [''APIRouter'', ''Depends'', ''HTTPException'', ''UploadFile'', ''Body'', ''Form'', ''File'',
      ''Query'', ''datetime'', ''keygen'', ''globals'', ''joinedload'', ''Session'', ''get_db'',
      ''os'', ''json'', ''Optional'', ''router'', ''crear_pedido'', ''listar_pedidos_cliente'',
      ''obtener_detalle_pedido'', ''marcar_pedido_recibido'', ''obtener_qr_pedido'',
      ''crear_pedido_especializado'', ''listar_pedidos_especializados'',
      ''obtener_detalle_pedido_especializado'']"

text \<open>Reading the global name \<open>n\<close> in a module: \<open>None\<close> when it is bound, else the error.\<close>

definition nombre_global :: "string list \<Rightarrow> string \<Rightarrow> http_error option" where
  "nombre_global espacio n = (if n \<in> set espacio then None else Some (Unhandled ''NameError''))"

subsection \<open>PUT /admin/pedidos/{pedido_id}/estado\<close>

definition transiciones_validas :: "(string \<times> string list) list" where
  "transiciones_validas =
     [(''pendiente'', [''en_preparacion'', ''cancelado'']),
      (''en_preparacion'', [''asignado'', ''cancelado'']),
      (''asignado'', [''en_camino'', ''cancelado'']),
      (''en_camino'', [''entregado'', ''devuelto'']),
      (''devuelto'', [''asignado'', ''cancelado'']),
      (''entregado'', []),
      (''cancelado'', [])]"

record estado_response =
  er_mensaje :: string
  er_id :: ident
  er_estado_anterior :: string
  er_estado_actual :: string

definition comilla :: string where
  "comilla = [CHR 0x27]"

definition actualizar_estado_pedido ::
  "database \<Rightarrow> ident \<Rightarrow> string \<Rightarrow> session \<times> (http_error + estado_response)" where
  "actualizar_estado_pedido db pedido_id nuevo_estado =
     (let s = get_db db in
      case query_pedido s pedido_id of
        None \<Rightarrow> (s, Inl (HTTPException 404 ''Pedido no encontrado.''))
      | Some pedido \<Rightarrow>
          (let estado_actual = pe_estado pedido in
           case map_of transiciones_validas estado_actual of
             None \<Rightarrow>
               (s, Inl (HTTPException 400 (''Estado actual desconocido: '' @ estado_actual)))
           | Some permitidos \<Rightarrow>
               if nuevo_estado \<notin> set permitidos then
                 (s, Inl (HTTPException 400
                     (''No se puede cambiar de '' @ comilla @ estado_actual @ comilla
                        @ '' a '' @ comilla @ nuevo_estado @ comilla @ ''.'')))
               else
                 (let s1 = set_pedido pedido_id (\<lambda>p. p\<lparr>pe_estado := nuevo_estado\<rparr>) s;
                      s2 = db_commit s1
                  in (s2, Inr \<lparr>er_mensaje =
                        ''Estado del pedido actualizado correctamente de '' @ comilla
                          @ estado_actual @ comilla @ '' a '' @ comilla @ nuevo_estado
                          @ comilla @ ''.'',
                      er_id = pe_id pedido,
                      er_estado_anterior = estado_actual,
                      er_estado_actual = nuevo_estado\<rparr>))))"

subsection \<open>PUT /admin/pedidos/{pedido_id}/asignar/{repartidor_id}\<close>

record asignar_response =
  ar_mensaje :: string
  ar_pedido_id :: ident
  ar_pedido_estado :: string
  ar_repartidor_id :: ident
  ar_repartidor_nombre :: string
  ar_repartidor_telefono :: string

text \<open>Lines 250 to 264: the status write, the commit and the response.\<close>

definition asignar_final ::
  "Pedido \<Rightarrow> Repartidor \<Rightarrow> ident \<Rightarrow> string \<Rightarrow> session \<Rightarrow> session \<times> (http_error + asignar_response)" where
  "asignar_final pedido repartidor pedido_id mensaje s1 =
     (let estado_final =
            (if pe_estado pedido \<notin> set [''asignado'', ''en_camino'', ''entregado'']
             then ''asignado'' else pe_estado pedido);
          s2 = (if pe_estado pedido \<notin> set [''asignado'', ''en_camino'', ''entregado'']
                then set_pedido pedido_id (\<lambda>p. p\<lparr>pe_estado := ''asignado''\<rparr>) s1
                else s1);
          s3 = db_commit s2
      in (s3, Inr \<lparr>ar_mensaje = mensaje,
                   ar_pedido_id = pe_id pedido,
                   ar_pedido_estado = estado_final,
                   ar_repartidor_id = re_id repartidor,
                   ar_repartidor_nombre = re_nombre repartidor,
                   ar_repartidor_telefono = re_telefono repartidor\<rparr>))"

text \<open>
  With a delivery-control row the handler first assigns \<^verbatim>\<open>control.repartidor_id\<close> and then
  evaluates \<^verbatim>\<open>datetime.now()\<close> (line 237). Without one it calls \<^verbatim>\<open>ControlEntrega(...)\<close>,
  whose arguments are evaluated in order: the key, then \<^verbatim>\<open>datetime.now()\<close> (line 244).
\<close>

definition asignar_pedido_a_repartidor ::
  "sysenv \<Rightarrow> database \<Rightarrow> ident \<Rightarrow> ident \<Rightarrow> session \<times> (http_error + asignar_response)" where
  "asignar_pedido_a_repartidor env db pedido_id repartidor_id =
     (let s = get_db db in
      case query_pedido s pedido_id of
        None \<Rightarrow> (s, Inl (HTTPException 404 ''Pedido no encontrado.''))
      | Some pedido \<Rightarrow>
         (case query_repartidor s repartidor_id of
            None \<Rightarrow> (s, Inl (HTTPException 404 ''Repartidor no encontrado.''))
          | Some repartidor \<Rightarrow>
             (case query_control s pedido_id of
                Some control \<Rightarrow>
                  (let s1 = set_control pedido_id
                              (\<lambda>c. c\<lparr>ce_repartidor_id := Some repartidor_id\<rparr>) s
                   in case nombre_global modulo_admin_pedidos ''datetime'' of
                        Some e \<Rightarrow> (s1, Inl e)
                      | None \<Rightarrow>
                          (let (ahora, s2) = datetime_now env s1;
                               s3 = set_control pedido_id
                                      (\<lambda>c. c\<lparr>ce_fecha_entrega := ahora\<rparr>) s2;
                               s4 = set_control pedido_id
                                      (\<lambda>c. c\<lparr>ce_confirmacion_entrega := 0\<rparr>) s3
                           in asignar_final pedido repartidor pedido_id
                                ''Pedido reasignado a un nuevo repartidor.'' s4))
              | None \<Rightarrow>
                  (let (k, s1) = generate_uint64_key env s
                   in case nombre_global modulo_admin_pedidos ''datetime'' of
                        Some e \<Rightarrow> (s1, Inl e)
                      | None \<Rightarrow>
                          (let (ahora, s2) = datetime_now env s1;
                               s3 = add_control
                                      \<lparr>ce_id = k, ce_pedido_id = pedido_id,
                                       ce_fecha_entrega = ahora, ce_confirmacion_entrega = 0,
                                       ce_repartidor_id = Some repartidor_id\<rparr> s2
                           in asignar_final pedido repartidor pedido_id
                                ''Pedido asignado correctamente.'' s3)))))"

subsection \<open>Delivery confirmation: repartidor and cliente routes\<close>

record entrega_response =
  en_mensaje :: string
  en_detalle :: "(ident \<times> string \<times> datetime \<times> bool) option"

text \<open>
  \<^verbatim>\<open>repartidor.py\<close>, lines 168 to 188. The first statement is
  \<^verbatim>\<open>db.query(ControlEntrega)\<close>, the second \<^verbatim>\<open>db.query(Pedido)\<close>.
\<close>

definition marcar_pedido_completado ::
  "sysenv \<Rightarrow> database \<Rightarrow> ident \<Rightarrow> session \<times> (http_error + entrega_response)" where
  "marcar_pedido_completado env db pedido_id =
     (let s = get_db db in
      case nombre_global modulo_repartidor ''ControlEntrega'' of
        Some e \<Rightarrow> (s, Inl e)
      | None \<Rightarrow>
      (case query_control s pedido_id of
        None \<Rightarrow> (s, Inl (HTTPException 404
                   (''El pedido no est'' @ [CHR 0xE1] @ '' asignado o no existe.'')))
      | Some control \<Rightarrow>
        (case nombre_global modulo_repartidor ''Pedido'' of
           Some e \<Rightarrow> (s, Inl e)
         | None \<Rightarrow>
         (case query_pedido s pedido_id of
            None \<Rightarrow> (s, Inl (HTTPException 404 ''Pedido no encontrado en la base de datos.''))
          | Some pedido \<Rightarrow>
             if pe_estado pedido = ''entregado'' \<and> ce_confirmacion_entrega control = 1 then
               (s, Inr \<lparr>en_mensaje = ''El pedido ya fue marcado como entregado anteriormente.'',
                        en_detalle = None\<rparr>)
             else
               (let s1 = set_pedido pedido_id (\<lambda>p. p\<lparr>pe_estado := ''entregado''\<rparr>) s;
                    s2 = set_control pedido_id (\<lambda>c. c\<lparr>ce_confirmacion_entrega := 1\<rparr>) s1;
                    (ahora, s3) = datetime_now env s2;
                    s4 = set_control pedido_id (\<lambda>c. c\<lparr>ce_fecha_entrega := ahora\<rparr>) s3;
                    s5 = db_commit s4
                in (s5, Inr \<lparr>en_mensaje =
                               ''El pedido ha sido marcado como entregado correctamente.'',
                             en_detalle = Some (pe_id pedido, ''entregado'', ahora, True)\<rparr>))))))"

text \<open>
  \<^verbatim>\<open>cliente/pedido.py\<close>, lines 187 to 207. The first statement is \<^verbatim>\<open>db.query(Pedido)\<close>,
  the second \<^verbatim>\<open>db.query(ControlEntrega)\<close>.
\<close>

definition marcar_pedido_recibido ::
  "sysenv \<Rightarrow> database \<Rightarrow> ident \<Rightarrow> session \<times> (http_error + entrega_response)" where
  "marcar_pedido_recibido env db pedido_id =
     (let s = get_db db in
      case nombre_global modulo_cliente_pedido ''Pedido'' of
        Some e \<Rightarrow> (s, Inl e)
      | None \<Rightarrow>
      (case query_pedido s pedido_id of
        None \<Rightarrow> (s, Inl (HTTPException 404 ''Pedido no encontrado.''))
      | Some pedido \<Rightarrow>
        (case nombre_global modulo_cliente_pedido ''ControlEntrega'' of
           Some e \<Rightarrow> (s, Inl e)
         | None \<Rightarrow>
         (case query_control s pedido_id of
            None \<Rightarrow> (s, Inl (HTTPException 404
                               ''El pedido no tiene registro de entrega asignado.''))
          | Some control \<Rightarrow>
             if pe_estado pedido = ''entregado'' \<and> ce_confirmacion_entrega control = 1 then
               (s, Inr \<lparr>en_mensaje = ''El pedido ya fue confirmado como recibido.'',
                        en_detalle = None\<rparr>)
             else
               (let s1 = set_pedido pedido_id (\<lambda>p. p\<lparr>pe_estado := ''entregado''\<rparr>) s;
                    s2 = set_control pedido_id (\<lambda>c. c\<lparr>ce_confirmacion_entrega := 1\<rparr>) s1;
                    (ahora, s3) = datetime_now env s2;
                    s4 = set_control pedido_id (\<lambda>c. c\<lparr>ce_fecha_entrega := ahora\<rparr>) s3;
                    s5 = db_commit s4
                in (s5, Inr \<lparr>en_mensaje = ''El pedido ha sido confirmado como recibido.'',
                             en_detalle = Some (pe_id pedido, ''entregado'', ahora, True)\<rparr>))))))"

subsection \<open>PUT /repartidor/pedidos/{pedido_id}/devuelto\<close>

text \<open>
  \<^verbatim>\<open>repartidor.py\<close>, lines 200 to 220. The first statement is
  \<^verbatim>\<open>db.query(ControlEntrega)\<close>, the second \<^verbatim>\<open>db.query(Pedido)\<close>.
\<close>

definition marcar_pedido_devuelto ::
  "sysenv \<Rightarrow> database \<Rightarrow> ident \<Rightarrow> session \<times> (http_error + entrega_response)" where
  "marcar_pedido_devuelto env db pedido_id =
     (let s = get_db db in
      case nombre_global modulo_repartidor ''ControlEntrega'' of
        Some e \<Rightarrow> (s, Inl e)
      | None \<Rightarrow>
      (case query_control s pedido_id of
        None \<Rightarrow> (s, Inl (HTTPException 404
                   (''El pedido no est'' @ [CHR 0xE1]
                      @ '' asignado o no existe en el control de entrega.'')))
      | Some control \<Rightarrow>
        (case nombre_global modulo_repartidor ''Pedido'' of
           Some e \<Rightarrow> (s, Inl e)
         | None \<Rightarrow>
         (case query_pedido s pedido_id of
            None \<Rightarrow> (s, Inl (HTTPException 404 ''Pedido no encontrado en la base de datos.''))
          | Some pedido \<Rightarrow>
             if pe_estado pedido \<in> set [''entregado'', ''cancelado''] then
               (s, Inl (HTTPException 400
                   (''No se puede marcar un pedido '' @ comilla @ pe_estado pedido @ comilla
                      @ '' como devuelto.'')))
             else
               (let s1 = set_pedido pedido_id (\<lambda>p. p\<lparr>pe_estado := ''devuelto''\<rparr>) s;
                    s2 = set_control pedido_id (\<lambda>c. c\<lparr>ce_confirmacion_entrega := 0\<rparr>) s1;
                    (ahora, s3) = datetime_now env s2;
                    s4 = set_control pedido_id (\<lambda>c. c\<lparr>ce_fecha_entrega := ahora\<rparr>) s3;
                    s5 = db_commit s4
                in (s5, Inr \<lparr>en_mensaje =
                               ''El pedido ha sido marcado como devuelto correctamente.'',
                             en_detalle = Some (pe_id pedido, ''devuelto'', ahora, False)\<rparr>))))))"

subsection \<open>POST /cliente/pedido/{cliente_id}\<close>

text \<open>
  The request body is read at the types the handler expects: an address identifier
  (absent is \<open>None\<close>), the list of line items (an absent key is the default \<^verbatim>\<open>[]\<close>) and
  the total (absent is \<open>None\<close>). The first statement, \<^verbatim>\<open>db.query(Cliente)\<close> (line 42),
  comes before any use of the body.
\<close>

record item =
  it_plato_id :: ident
  it_cantidad :: int

record pedido_data =
  pd_direccion_id :: "ident option"
  pd_platos :: "item list"
  pd_total :: "real option"

record pedido_response =
  pr_mensaje :: string
  pr_pedido_id :: ident
  pr_estado :: string
  pr_total :: real
  pr_fecha :: datetime

definition add_pedido :: "Pedido \<Rightarrow> session \<Rightarrow> session" where
  "add_pedido p s = s\<lparr>pending := (pending s)\<lparr>t_pedido := t_pedido (pending s) @ [p]\<rparr>\<rparr>"

text \<open>
  The loop over the line items. Its body calls
  \<^verbatim>\<open>DetallePedido(id=keygen.generate_uint64_key(), pedido_id=..., plato_id=..., cantidad=...,
  subtotal=item["cantidad"] * db.query(Plato).get(item["plato_id"]).precio)\<close>:
  the name \<^verbatim>\<open>DetallePedido\<close> is read, a key is drawn, the name \<^verbatim>\<open>Plato\<close> is read and the
  price looked up (\<^verbatim>\<open>AttributeError\<close> on \<^verbatim>\<open>None\<close>), and then the constructor is entered.
  \<^verbatim>\<open>models.py\<close> gives \<^verbatim>\<open>DetallePedido\<close> the attributes \<^verbatim>\<open>id\<close>, \<^verbatim>\<open>pedido_id\<close>, \<^verbatim>\<open>cantidad\<close>,
  \<^verbatim>\<open>subtotal\<close> and \<^verbatim>\<open>plato_combinado_id\<close>; the declarative constructor raises
  \<^verbatim>\<open>TypeError\<close> for the keyword \<^verbatim>\<open>plato_id\<close>. No iteration adds a row.
\<close>

fun add_detalles ::
  "sysenv \<Rightarrow> ident \<Rightarrow> item list \<Rightarrow> session \<Rightarrow> (session \<times> http_error) + session" where
  "add_detalles env pedido_id [] s = Inr s"
| "add_detalles env pedido_id (it # its) s =
     (case nombre_global modulo_cliente_pedido ''DetallePedido'' of
        Some e \<Rightarrow> Inl (s, e)
      | None \<Rightarrow>
          (let (k, s1) = generate_uint64_key env s
           in case nombre_global modulo_cliente_pedido ''Plato'' of
                Some e \<Rightarrow> Inl (s1, e)
              | None \<Rightarrow>
                  (case precio_plato env (it_plato_id it) of
                     None \<Rightarrow> Inl (s1, Unhandled ''AttributeError'')
                   | Some precio \<Rightarrow> Inl (s1, Unhandled ''TypeError''))))"

definition crear_pedido ::
  "sysenv \<Rightarrow> database \<Rightarrow> ident \<Rightarrow> pedido_data \<Rightarrow> session \<times> (http_error + pedido_response)" where
  "crear_pedido env db cliente_id data =
     (let s = get_db db in
      case nombre_global modulo_cliente_pedido ''Cliente'' of
        Some e \<Rightarrow> (s, Inl e)
      | None \<Rightarrow>
      (case query_cliente s cliente_id of
        None \<Rightarrow> (s, Inl (HTTPException 404 ''Cliente no encontrado.''))
      | Some cliente \<Rightarrow>
          if pd_direccion_id data = None \<or> pd_direccion_id data = Some [] then
            (s, Inl (HTTPException 400
                (''Debe especificar una direcci'' @ [CHR 0xF3] @ ''n de entrega.'')))
          else if pd_platos data = [] \<or> length (pd_platos data) = 0 then
            (s, Inl (HTTPException 400 ''Debe incluir al menos un plato en el pedido.''))
          else if (case pd_total data of None \<Rightarrow> True | Some t \<Rightarrow> t = 0 \<or> t \<le> 0) then
            (s, Inl (HTTPException 400 ''El total del pedido debe ser mayor que 0.''))
          else
            (case nombre_global modulo_cliente_pedido ''Direccion'' of
               Some e \<Rightarrow> (s, Inl e)
             | None \<Rightarrow>
            (case query_direccion s (pd_direccion_id data) cliente_id of
               None \<Rightarrow>
                 (s, Inl (HTTPException 400
                     (''La direcci'' @ [CHR 0xF3] @ ''n no pertenece al cliente o no existe.'')))
             | Some direccion \<Rightarrow>
                 (let (pedido_id, s1) = generate_uint64_key env s
                  in case nombre_global modulo_cliente_pedido ''Pedido'' of
                       Some e \<Rightarrow> (s1, Inl e)
                     | None \<Rightarrow>
                 (let (ahora, s2) = datetime_now env s1;
                      pedido = \<lparr>pe_id = pedido_id, pe_cliente_id = cliente_id,
                                pe_fecha = ahora, pe_total = the (pd_total data),
                                pe_incluye_plato = True, pe_estado = ''pendiente'',
                                pe_direccion_id = pd_direccion_id data\<rparr>;
                      s3 = add_pedido pedido s2
                  in case add_detalles env pedido_id (pd_platos data) s3 of
                       Inl (s4, e) \<Rightarrow> (s4, Inl e)
                     | Inr s4 \<Rightarrow>
                         (let s5 = db_commit s4
                          in (s5, Inr \<lparr>pr_mensaje = ''Pedido creado exitosamente.'',
                                       pr_pedido_id = pedido_id,
                                       pr_estado = pe_estado pedido,
                                       pr_total = pe_total pedido,
                                       pr_fecha = pe_fecha pedido\<rparr>))))))))"

subsection \<open>POST /cliente/pedido/especializado/{cliente_id}\<close>

record upload =
  up_filename :: string
  up_contenido :: string

record especializado_form =
  ef_registro_mascota_id :: ident
  ef_frecuencia_cantidad :: string
  ef_objetivo_dieta :: string
  ef_indicaciones_adicionales :: "string option"
  ef_consulta_nutricionista :: bool
  ef_alergias_ids :: "string option"
  ef_descripcion_alergias :: "string option"
  ef_condiciones_salud :: "string option"
  ef_preferencias_alimentarias :: "string option"
  ef_receta_medica :: "upload option"
  ef_archivo_adicional :: "upload option"

record resumen =
  alergias_registradas :: nat
  condiciones_salud_registradas :: nat
  preferencias_alimentarias_registradas :: nat
  descripcion_alergias_incluida :: bool
  receta_medica_adjunta :: bool
  archivo_adicional_adjuntado :: bool

record especializado_response =
  sr_mensaje :: string
  sr_pedido_id :: ident
  sr_pedido_especializado_id :: ident
  sr_registro_mascota_id :: ident
  sr_consulta_nutricionista :: bool
  sr_resumen :: resumen

text \<open>Python truth value of a decoded JSON value, and of an optional form string.\<close>

fun truthy :: "json \<Rightarrow> bool" where
  "truthy JNull = False"
| "truthy (JBool b) = b"
| "truthy (JInt n) = (n \<noteq> 0)"
| "truthy (JFloat r) = (r \<noteq> 0)"
| "truthy (JStr t) = (t \<noteq> [])"
| "truthy (JList l) = (l \<noteq> [])"
| "truthy (JDict d) = (d \<noteq> [])"

definition truthy_str :: "string option \<Rightarrow> bool" where
  "truthy_str v = (case v of None \<Rightarrow> False | Some t \<Rightarrow> t \<noteq> [])"

text \<open>\<^verbatim>\<open>d.get(key)\<close> on a decoded object: the value, or \<^verbatim>\<open>None\<close>.\<close>

definition dict_get :: "(string \<times> json) list \<Rightarrow> string \<Rightarrow> json" where
  "dict_get d key = (case map_of d key of None \<Rightarrow> JNull | Some v \<Rightarrow> v)"

text \<open>
  The local function \<^verbatim>\<open>parse_json_list\<close>; every call leaves \<^verbatim>\<open>fallback_empty\<close> at its
  default \<^verbatim>\<open>True\<close>.
\<close>

definition parse_json_list :: "sysenv \<Rightarrow> string option \<Rightarrow> http_error + json list" where
  "parse_json_list env v =
     (if \<not> truthy_str v then Inr []
      else case json_loads env (the v) of
             None \<Rightarrow> Inl (HTTPException 400
                (''Formato JSON inv'' @ [CHR 0xE1] @ ''lido en uno de los campos de lista.''))
           | Some parsed \<Rightarrow> (case parsed of JList l \<Rightarrow> Inr l | _ \<Rightarrow> Inr [parsed]))"

definition add_pedido_especializado :: "PedidoEspecializado \<Rightarrow> session \<Rightarrow> session" where
  "add_pedido_especializado r s =
     s\<lparr>pending := (pending s)\<lparr>t_pedido_especializado :=
          t_pedido_especializado (pending s) @ [r]\<rparr>\<rparr>"

definition set_archivo_adicional :: "ident \<Rightarrow> string \<Rightarrow> session \<Rightarrow> session" where
  "set_archivo_adicional esp_id path s =
     s\<lparr>pending := (pending s)\<lparr>t_pedido_especializado :=
          update_first (\<lambda>r. es_id r = esp_id) (\<lambda>r. r\<lparr>es_archivo_adicional := Some path\<rparr>)
            (t_pedido_especializado (pending s))\<rparr>\<rparr>"

definition add_receta :: "RecetaMedica \<Rightarrow> session \<Rightarrow> session" where
  "add_receta r s =
     s\<lparr>pending := (pending s)\<lparr>t_receta_medica := t_receta_medica (pending s) @ [r]\<rparr>\<rparr>"

definition add_alergia :: "AlergiaMascota \<Rightarrow> session \<Rightarrow> session" where
  "add_alergia r s =
     s\<lparr>pending := (pending s)\<lparr>t_alergia_mascota := t_alergia_mascota (pending s) @ [r]\<rparr>\<rparr>"

definition add_descripcion :: "DescripcionAlergias \<Rightarrow> session \<Rightarrow> session" where
  "add_descripcion r s =
     s\<lparr>pending := (pending s)\<lparr>t_descripcion_alergias :=
          t_descripcion_alergias (pending s) @ [r]\<rparr>\<rparr>"

definition add_condicion :: "CondicionSalud \<Rightarrow> session \<Rightarrow> session" where
  "add_condicion r s =
     s\<lparr>pending := (pending s)\<lparr>t_condicion_salud := t_condicion_salud (pending s) @ [r]\<rparr>\<rparr>"

definition add_preferencia :: "PreferenciaAlimentaria \<Rightarrow> session \<Rightarrow> session" where
  "add_preferencia r s =
     s\<lparr>pending := (pending s)\<lparr>t_preferencia_alimentaria :=
          t_preferencia_alimentaria (pending s) @ [r]\<rparr>\<rparr>"

definition write_file :: "string \<Rightarrow> string \<Rightarrow> session \<Rightarrow> session" where
  "write_file path contenido s = s\<lparr>written := written s @ [(path, contenido)]\<rparr>"

definition uploads_dir :: string where
  "uploads_dir = ''static/uploads/pedido_especializado''"

text \<open>
  \<^verbatim>\<open>for alergia_id in alergias_list\<close>: the body calls \<^verbatim>\<open>AlergiaMascota(...)\<close>; the class
  name is read, then the key is drawn, then \<^verbatim>\<open>int(alergia_id)\<close> is evaluated.
\<close>

fun registrar_alergias ::
  "sysenv \<Rightarrow> ident \<Rightarrow> json list \<Rightarrow> session \<Rightarrow> (session \<times> http_error) + session" where
  "registrar_alergias env mascota_id [] s = Inr s"
| "registrar_alergias env mascota_id (alergia_id # resto) s =
     (case nombre_global modulo_cliente_pedido ''AlergiaMascota'' of
        Some e \<Rightarrow> Inl (s, e)
      | None \<Rightarrow>
          (let (k, s1) = generate_uint64_key env s
           in case py_int env alergia_id of
                Inl exn \<Rightarrow> Inl (s1, Unhandled exn)
              | Inr n \<Rightarrow>
                  registrar_alergias env mascota_id resto
                    (add_alergia \<lparr>al_id = k, al_registro_mascota_id = mascota_id,
                                  al_alergia_especie_id = n, al_severidad = ''moderada'',
                                  al_estado_registro = ''A''\<rparr> s1)))"

text \<open>The name and the date text read from one entry of \<^verbatim>\<open>condiciones_list\<close>.\<close>

definition nombre_fecha :: "sysenv \<Rightarrow> json \<Rightarrow> json \<times> json" where
  "nombre_fecha env cond =
     (case cond of
        JDict d \<Rightarrow> (dict_get d ''nombre'', dict_get d ''fecha'')
      | _ \<Rightarrow> (JStr (py_str env cond), JNull))"

text \<open>
  \<^verbatim>\<open>for cond in condiciones_list\<close>: an entry without a truthy name is skipped; otherwise
  the date is computed and \<^verbatim>\<open>db.add(CondicionSalud(...))\<close> reads the class name and draws
  the key.
\<close>

fun registrar_condiciones ::
  "sysenv \<Rightarrow> ident \<Rightarrow> json list \<Rightarrow> session \<Rightarrow> (session \<times> http_error) + session" where
  "registrar_condiciones env mascota_id [] s = Inr s"
| "registrar_condiciones env mascota_id (cond # resto) s =
     (let (nombre, fecha_txt) = nombre_fecha env cond
      in if \<not> truthy nombre then registrar_condiciones env mascota_id resto s
         else
           (let (fecha_val, s1) =
                  (if truthy fecha_txt then
                     (case fromisoformat env fecha_txt of
                        Some d \<Rightarrow> (d, s)
                      | None \<Rightarrow> datetime_now env s)
                   else datetime_now env s)
            in case nombre_global modulo_cliente_pedido ''CondicionSalud'' of
                 Some e \<Rightarrow> Inl (s1, e)
               | None \<Rightarrow>
                   (let (k, s2) = generate_uint64_key env s1
                    in registrar_condiciones env mascota_id resto
                         (add_condicion \<lparr>cs_id = k, cs_registro_mascota_id = mascota_id,
                                         cs_nombre = nombre, cs_fecha = fecha_val,
                                         cs_estado_registro = ''A''\<rparr> s2))))"

text \<open>The name and the description read from one entry of \<^verbatim>\<open>preferencias_list\<close>.\<close>

definition nombre_descripcion :: "sysenv \<Rightarrow> json \<Rightarrow> json \<times> json" where
  "nombre_descripcion env pref =
     (case pref of
        JDict d \<Rightarrow> (dict_get d ''nombre'', dict_get d ''descripcion'')
      | _ \<Rightarrow> (JStr (py_str env pref), JNull))"

fun registrar_preferencias ::
  "sysenv \<Rightarrow> ident \<Rightarrow> json list \<Rightarrow> session \<Rightarrow> (session \<times> http_error) + session" where
  "registrar_preferencias env mascota_id [] s = Inr s"
| "registrar_preferencias env mascota_id (pref # resto) s =
     (let (nombre, descripcion) = nombre_descripcion env pref
      in if \<not> truthy nombre then registrar_preferencias env mascota_id resto s
         else
           (case nombre_global modulo_cliente_pedido ''PreferenciaAlimentaria'' of
              Some e \<Rightarrow> Inl (s, e)
            | None \<Rightarrow>
                (let (k, s1) = generate_uint64_key env s
                 in registrar_preferencias env mascota_id resto
                      (add_preferencia \<lparr>pa_id = k, pa_registro_mascota_id = mascota_id,
                                        pa_nombre = nombre, pa_estado_registro = ''A'',
                                        pa_descripcion = descripcion\<rparr> s1))))"

text \<open>
  The handler after the three lists have been parsed, in two parts. The first part
  (lines 277 to 321) draws the order's key, calls \<^verbatim>\<open>Pedido(...)\<close> and
  \<^verbatim>\<open>PedidoEspecializado(...)\<close> (each added and followed by \<^verbatim>\<open>db.flush()\<close>), writes the
  uploaded files and calls \<^verbatim>\<open>RecetaMedica(...)\<close>; it yields the two new identifiers.
\<close>

definition abrir_pedido_especializado ::
  "sysenv \<Rightarrow> ident \<Rightarrow> especializado_form \<Rightarrow> session
     \<Rightarrow> (session \<times> http_error) + (ident \<times> ident \<times> session)" where
  "abrir_pedido_especializado env cliente_id form s =
     (let mascota_id = ef_registro_mascota_id form;
          (pedido_id, s1) = generate_uint64_key env s
      in case nombre_global modulo_cliente_pedido ''Pedido'' of
           Some e \<Rightarrow> Inl (s1, e)
         | None \<Rightarrow>
     (let (ahora, s2) = datetime_now env s1;
          s3 = add_pedido \<lparr>pe_id = pedido_id, pe_cliente_id = cliente_id, pe_fecha = ahora,
                            pe_total = 0, pe_incluye_plato = False, pe_estado = ''pendiente'',
                            pe_direccion_id = None\<rparr> s2;
          (pedido_esp_id, s4) = generate_uint64_key env s3
      in case nombre_global modulo_cliente_pedido ''PedidoEspecializado'' of
           Some e \<Rightarrow> Inl (s4, e)
         | None \<Rightarrow>
     (let s5 = add_pedido_especializado
                 \<lparr>es_id = pedido_esp_id, es_pedido_id = pedido_id,
                  es_registro_mascota_id = mascota_id,
                  es_frecuencia_cantidad = ef_frecuencia_cantidad form,
                  es_objetivo_dieta = ef_objetivo_dieta form,
                  es_indicaciones_adicionales = ef_indicaciones_adicionales form,
                  es_consulta_nutricionista = (if ef_consulta_nutricionista form then 1 else 0),
                  es_estado_registro = ''A'', es_archivo_adicional = None\<rparr> s4;
          s6 = (case ef_archivo_adicional form of
                  None \<Rightarrow> s5
                | Some archivo \<Rightarrow>
                    (let extra_path = uploads_dir @ ''/'' @ ''extra_'' @ pedido_esp_id @ ''_''
                                        @ up_filename archivo
                     in set_archivo_adicional pedido_esp_id extra_path
                          (write_file extra_path (up_contenido archivo) s5)))
      in case ef_receta_medica form of
           None \<Rightarrow> Inr (pedido_id, pedido_esp_id, s6)
         | Some archivo \<Rightarrow>
             (let receta_path = uploads_dir @ ''/'' @ ''receta_'' @ pedido_esp_id @ ''_''
                                  @ up_filename archivo;
                  sa = write_file receta_path (up_contenido archivo) s6
              in case nombre_global modulo_cliente_pedido ''RecetaMedica'' of
                   Some e \<Rightarrow> Inl (sa, e)
                 | None \<Rightarrow>
                     (let (k, sb) = generate_uint64_key env sa;
                          (t, sc) = datetime_now env sb
                      in Inr (pedido_id, pedido_esp_id,
                              add_receta \<lparr>rc_id = k, rc_registro_mascota_id = mascota_id,
                                rc_pedido_especializado_id = pedido_esp_id, rc_fecha = t,
                                rc_estado_registro = ''A'', rc_archivo = receta_path\<rparr> sc))))))"

text \<open>Lines 331 to 339: the optional free-text description of allergies.\<close>

definition registrar_descripcion ::
  "sysenv \<Rightarrow> ident \<Rightarrow> especializado_form \<Rightarrow> session \<Rightarrow> (session \<times> http_error) + session" where
  "registrar_descripcion env mascota_id form s =
     (if truthy_str (ef_descripcion_alergias form) then
        (case nombre_global modulo_cliente_pedido ''DescripcionAlergias'' of
           Some e \<Rightarrow> Inl (s, e)
         | None \<Rightarrow>
             (let (k, sa) = generate_uint64_key env s;
                  (t, sb) = datetime_now env sa
              in Inr (add_descripcion
                        \<lparr>da_id = k, da_registro_mascota_id = mascota_id,
                         da_descripcion = the (ef_descripcion_alergias form),
                         da_fecha = t, da_estado_registro = ''A''\<rparr> sb)))
      else Inr s)"

text \<open>
  The second part runs the loops over the three lists, adds the free-text description,
  commits and builds the response.
\<close>

definition componer_pedido_especializado ::
  "sysenv \<Rightarrow> ident \<Rightarrow> especializado_form \<Rightarrow> json list \<Rightarrow> json list \<Rightarrow> json list \<Rightarrow> session
     \<Rightarrow> session \<times> (http_error + especializado_response)" where
  "componer_pedido_especializado env cliente_id form alergias_list condiciones_list
       preferencias_list s =
     (let mascota_id = ef_registro_mascota_id form
      in case abrir_pedido_especializado env cliente_id form s of
           Inl (s7, e) \<Rightarrow> (s7, Inl e)
         | Inr (pedido_id, pedido_esp_id, s7) \<Rightarrow>
      (case registrar_alergias env mascota_id alergias_list s7 of
           Inl (s8, e) \<Rightarrow> (s8, Inl e)
         | Inr s8 \<Rightarrow>
      (case registrar_descripcion env mascota_id form s8 of
           Inl (s9, e) \<Rightarrow> (s9, Inl e)
         | Inr s9 \<Rightarrow>
      (case registrar_condiciones env mascota_id condiciones_list s9 of
           Inl (s10, e) \<Rightarrow> (s10, Inl e)
         | Inr s10 \<Rightarrow>
      (case registrar_preferencias env mascota_id preferencias_list s10 of
           Inl (s11, e) \<Rightarrow> (s11, Inl e)
         | Inr s11 \<Rightarrow>
             (let s12 = db_commit s11
              in (s12, Inr \<lparr>sr_mensaje = ''Pedido especializado creado exitosamente.'',
                    sr_pedido_id = pedido_id,
                    sr_pedido_especializado_id = pedido_esp_id,
                    sr_registro_mascota_id = mascota_id,
                    sr_consulta_nutricionista = ef_consulta_nutricionista form,
                    sr_resumen =
                      \<lparr>alergias_registradas = length alergias_list,
                       condiciones_salud_registradas = length condiciones_list,
                       preferencias_alimentarias_registradas = length preferencias_list,
                       descripcion_alergias_incluida = truthy_str (ef_descripcion_alergias form),
                       receta_medica_adjunta = (ef_receta_medica form \<noteq> None),
                       archivo_adicional_adjuntado =
                         (ef_archivo_adicional form \<noteq> None)\<rparr>\<rparr>)))))))"

text \<open>
  The handler. Its first statement is \<^verbatim>\<open>db.query(Cliente)\<close> (line 248), its second
  \<^verbatim>\<open>db.query(RegistroMascota)\<close> (line 252); the checks of the mandatory fields and the three
  calls of \<^verbatim>\<open>parse_json_list\<close> follow.
\<close>

definition crear_pedido_especializado ::
  "sysenv \<Rightarrow> database \<Rightarrow> ident \<Rightarrow> especializado_form
     \<Rightarrow> session \<times> (http_error + especializado_response)" where
  "crear_pedido_especializado env db cliente_id form =
     (let s = get_db db in
      case nombre_global modulo_cliente_pedido ''Cliente'' of
        Some e \<Rightarrow> (s, Inl e)
      | None \<Rightarrow>
      (case query_cliente s cliente_id of
        None \<Rightarrow> (s, Inl (HTTPException 404 ''Cliente no encontrado.''))
      | Some cliente \<Rightarrow>
        (case nombre_global modulo_cliente_pedido ''RegistroMascota'' of
           Some e \<Rightarrow> (s, Inl e)
         | None \<Rightarrow>
         (case query_mascota s (ef_registro_mascota_id form) cliente_id of
            None \<Rightarrow> (s, Inl (HTTPException 404
                               ''Mascota no encontrada o no pertenece al cliente.''))
          | Some mascota \<Rightarrow>
             if ef_frecuencia_cantidad form = [] \<or> ef_objetivo_dieta form = [] then
               (s, Inl (HTTPException 400
                   (''Debe proporcionar '' @ comilla @ ''frecuencia_cantidad'' @ comilla
                      @ '' y '' @ comilla @ ''objetivo_dieta'' @ comilla @ ''.'')))
             else
               (case parse_json_list env (ef_alergias_ids form) of
                  Inl e \<Rightarrow> (s, Inl e)
                | Inr alergias_list \<Rightarrow>
                   (case parse_json_list env (ef_condiciones_salud form) of
                      Inl e \<Rightarrow> (s, Inl e)
                    | Inr condiciones_list \<Rightarrow>
                       (case parse_json_list env (ef_preferencias_alimentarias form) of
                          Inl e \<Rightarrow> (s, Inl e)
                        | Inr preferencias_list \<Rightarrow>
                            componer_pedido_especializado env cliente_id form alergias_list
                              condiciones_list preferencias_list s)))))))"

section \<open>Notions used in the statements\<close>

text \<open>
  The transition table as the specification gives it (section 4.2), with the states
  under their stored names: pending is \<^verbatim>\<open>pendiente\<close>, in\_preparation
  \<^verbatim>\<open>en_preparacion\<close>, assigned \<^verbatim>\<open>asignado\<close>, in\_transit \<^verbatim>\<open>en_camino\<close>, delivered
  \<^verbatim>\<open>entregado\<close>, returned \<^verbatim>\<open>devuelto\<close>, cancelled \<^verbatim>\<open>cancelado\<close>.
\<close>

definition tabla_spec :: "(string \<times> string list) list" where
  "tabla_spec =
     [(''pendiente'', [''en_preparacion'', ''cancelado'']),
      (''en_preparacion'', [''asignado'', ''cancelado'']),
      (''asignado'', [''en_camino'', ''cancelado'']),
      (''en_camino'', [''entregado'', ''devuelto'']),
      (''devuelto'', [''asignado'', ''cancelado''])]"

definition allowed_targets :: "string \<Rightarrow> string set" where
  "allowed_targets st = (case map_of tabla_spec st of None \<Rightarrow> {} | Some l \<Rightarrow> set l)"

text \<open>The status of an order in the committed state of a session, after the request.\<close>

definition estado_persistido :: "session \<Rightarrow> ident \<Rightarrow> string option" where
  "estado_persistido s pedido_id =
     map_option pe_estado (find (\<lambda>p. pe_id p = pedido_id) (t_pedido (committed s)))"

subsection \<open>A concrete store and environment\<close>

definition texto_condiciones_demo :: string where
  "texto_condiciones_demo =
     ''[{}, {'' @ [CHR 0x22] @ ''nombre'' @ [CHR 0x22] @ '': '' @ [CHR 0x22] @ ''renal''
       @ [CHR 0x22] @ ''}]''"

definition env_demo :: sysenv where
  "env_demo =
     \<lparr>key_at = (\<lambda>n. replicate (Suc n) (CHR ''9'')),
      time_at = (\<lambda>n. 1000 + n),
      json_loads = (\<lambda>t. if t = ''[5, 5]'' then Some (JList [JInt 5, JInt 5])
                        else if t = texto_condiciones_demo
                          then Some (JList [JDict [], JDict [(''nombre'', JStr ''renal'')]])
                        else None),
      py_int = (\<lambda>j. case j of JInt n \<Rightarrow> Inr n | _ \<Rightarrow> Inl ''TypeError''),
      py_str = (\<lambda>j. case j of JStr t \<Rightarrow> t | _ \<Rightarrow> ''None''),
      fromisoformat = (\<lambda>j. None),
      precio_plato = (\<lambda>i. if i = ''p1'' then Some 25 else None)\<rparr>"

definition pedido_demo :: "ident \<Rightarrow> string \<Rightarrow> Pedido" where
  "pedido_demo i st =
     \<lparr>pe_id = i, pe_cliente_id = ''c1'', pe_fecha = 10, pe_total = 25,
      pe_incluye_plato = True, pe_estado = st, pe_direccion_id = Some ''d1''\<rparr>"

definition control_demo :: "ident \<Rightarrow> ident \<Rightarrow> int \<Rightarrow> ControlEntrega" where
  "control_demo i pedido_id conf =
     \<lparr>ce_id = i, ce_pedido_id = pedido_id, ce_fecha_entrega = 20,
      ce_confirmacion_entrega = conf, ce_repartidor_id = Some ''r1''\<rparr>"

definition db_demo :: database where
  "db_demo = db_vacia
     \<lparr>t_cliente := [\<lparr>cl_id = ''c1''\<rparr>],
      t_direccion := [\<lparr>di_id = ''d1'', di_cliente_id = ''c1''\<rparr>],
      t_repartidor := [\<lparr>re_id = ''r1'', re_nombre = ''Ana'', re_telefono = ''111''\<rparr>,
                       \<lparr>re_id = ''r2'', re_nombre = ''Luis'', re_telefono = ''222''\<rparr>],
      t_registro_mascota := [\<lparr>rm_id = ''m1'', rm_cliente_id = ''c1''\<rparr>],
      t_pedido := [pedido_demo ''1'' ''pendiente'', pedido_demo ''2'' ''en_camino'',
                   pedido_demo ''3'' ''entregado'', pedido_demo ''4'' ''cancelado''],
      t_control_entrega := [control_demo ''e2'' ''2'' 0, control_demo ''e3'' ''3'' 1,
                            control_demo ''e4'' ''4'' 0]\<rparr>"

text \<open>The status of an order in a store.\<close>

definition estado_de :: "database \<Rightarrow> ident \<Rightarrow> string option" where
  "estado_de db pedido_id =
     map_option pe_estado (find (\<lambda>p. pe_id p = pedido_id) (t_pedido db))"

text \<open>
  The invariant of the delivery-control records: a record whose confirmation flag is 1
  belongs to an order whose status is \<^verbatim>\<open>entregado\<close>.
\<close>

definition inv_confirmacion :: "database \<Rightarrow> bool" where
  "inv_confirmacion db =
     list_all (\<lambda>c. ce_confirmacion_entrega c = 1 \<longrightarrow>
                  estado_de db (ce_pedido_id c) = Some ''entregado'')
       (t_control_entrega db)"

text \<open>
  The operations of the delivery engine and the state machine as requests, each with the
  environment it runs in; \<open>ejecutar\<close> gives the store a request leaves committed.
\<close>

datatype operacion =
    Asignar sysenv ident ident
  | Completado sysenv ident
  | Recibido sysenv ident
  | Devuelto sysenv ident
  | CambiarEstado ident string

fun ejecutar :: "operacion \<Rightarrow> database \<Rightarrow> database" where
  "ejecutar (Asignar env pid rid) db = committed (fst (asignar_pedido_a_repartidor env db pid rid))"
| "ejecutar (Completado env pid) db = committed (fst (marcar_pedido_completado env db pid))"
| "ejecutar (Recibido env pid) db = committed (fst (marcar_pedido_recibido env db pid))"
| "ejecutar (Devuelto env pid) db = committed (fst (marcar_pedido_devuelto env db pid))"
| "ejecutar (CambiarEstado pid nuevo) db = committed (fst (actualizar_estado_pedido db pid nuevo))"

definition ejecutar_todas :: "operacion list \<Rightarrow> database \<Rightarrow> database" where
  "ejecutar_todas ops db = fold ejecutar ops db"

text \<open>The delivery-control record of an order in the committed state of a session.\<close>

definition control_persistido :: "session \<Rightarrow> ident \<Rightarrow> ControlEntrega option" where
  "control_persistido s pedido_id =
     find (\<lambda>c. ce_pedido_id c = pedido_id) (t_control_entrega (committed s))"


subsection \<open>Requests for order creation\<close>

definition data_demo :: "ident \<Rightarrow> pedido_data" where
  "data_demo direccion_id =
     \<lparr>pd_direccion_id = Some direccion_id,
      pd_platos = [\<lparr>it_plato_id = ''p1'', it_cantidad = 2\<rparr>],
      pd_total = Some 50\<rparr>"

definition form_demo :: "string option \<Rightarrow> string option \<Rightarrow> especializado_form" where
  "form_demo alergias condiciones =
     \<lparr>ef_registro_mascota_id = ''m1'', ef_frecuencia_cantidad = ''2 veces/semana'',
      ef_objetivo_dieta = ''control de peso'', ef_indicaciones_adicionales = None,
      ef_consulta_nutricionista = False, ef_alergias_ids = alergias,
      ef_descripcion_alergias = None, ef_condiciones_salud = condiciones,
      ef_preferencias_alimentarias = None, ef_receta_medica = None,
      ef_archivo_adicional = None\<rparr>"

text \<open>The summary of a response, when there is one.\<close>

definition resumen_de :: "http_error + especializado_response \<Rightarrow> resumen option" where
  "resumen_de r = (case r of Inl e \<Rightarrow> None | Inr resp \<Rightarrow> Some (sr_resumen resp))"

section \<open>The order state machine\<close>

lemma allowed_targets_code:
  "allowed_targets st = (case map_of transiciones_validas st of None \<Rightarrow> {} | Some l \<Rightarrow> set l)"
  by (simp add: allowed_targets_def tabla_spec_def transiciones_validas_def)

lemma find_update_first:
  "(\<And>x. P x \<Longrightarrow> P (f x)) \<Longrightarrow> find P (update_first P f xs) = map_option f (find P xs)"
  by (induction xs) auto

lemma query_pedido_get_db [simp]:
  "query_pedido (get_db db) pid = find (\<lambda>p. pe_id p = pid) (t_pedido db)"
  by (simp add: query_pedido_def get_db_def)

lemma estado_persistido_set_pedido:
  "estado_persistido (db_commit (set_pedido pid (\<lambda>q. q\<lparr>pe_estado := e\<rparr>) s)) pid =
     map_option (\<lambda>_. e) (query_pedido s pid)"
  by (simp add: estado_persistido_def db_commit_def set_pedido_def query_pedido_def
      find_update_first option.map_comp comp_def)

lemma actualizar_ok:
  assumes "find (\<lambda>p. pe_id p = pid) (t_pedido db) = Some p"
    and "nuevo \<in> allowed_targets (pe_estado p)"
  shows "\<exists>r. actualizar_estado_pedido db pid nuevo =
           (db_commit (set_pedido pid (\<lambda>q. q\<lparr>pe_estado := nuevo\<rparr>) (get_db db)), Inr r)
           \<and> er_estado_anterior r = pe_estado p \<and> er_estado_actual r = nuevo"
  using assms
  by (auto simp: actualizar_estado_pedido_def allowed_targets_code Let_def split: option.splits)

lemma actualizar_rechazo:
  assumes "find (\<lambda>p. pe_id p = pid) (t_pedido db) = Some p"
    and "nuevo \<notin> allowed_targets (pe_estado p)"
  shows "actualizar_estado_pedido db pid nuevo =
           (get_db db, Inl (HTTPException 400
              (if pe_estado p \<in> fst ` set transiciones_validas
               then ''No se puede cambiar de '' @ comilla @ pe_estado p @ comilla
                        @ '' a '' @ comilla @ nuevo @ comilla @ ''.''
               else ''Estado actual desconocido: '' @ pe_estado p)))"
proof (cases "map_of transiciones_validas (pe_estado p)")
  case None
  then have "pe_estado p \<notin> fst ` set transiciones_validas"
    by (simp add: map_of_eq_None_iff)
  with None assms show ?thesis
    by (simp add: actualizar_estado_pedido_def Let_def)
next
  case (Some l)
  then have "pe_estado p \<in> fst ` set transiciones_validas"
    by (metis map_of_eq_None_iff option.distinct(1))
  with Some assms show ?thesis
    by (simp add: actualizar_estado_pedido_def allowed_targets_code Let_def)
qed

text \<open>
  C1. For an existing order, the manual status change succeeds exactly when the requested
  status is an allowed target of the current status in the specification's table, and
  then the requested status is the committed one. Otherwise it is rejected with a 400
  error and nothing is written: when the current status is a key of the handler's table
  the detail quotes the current and the requested status, when it is not a key the
  detail reports the unknown current status. Every request on an order that is
  \<^verbatim>\<open>entregado\<close> or \<^verbatim>\<open>cancelado\<close>, or whose status is no key of the specification's table,
  is rejected.
\<close>

theorem transition_iff_allowed:
  assumes "find (\<lambda>p. pe_id p = pid) (t_pedido db) = Some p"
  shows "((\<exists>s r. actualizar_estado_pedido db pid nuevo = (s, Inr r))
            \<longleftrightarrow> nuevo \<in> allowed_targets (pe_estado p))
       \<and> (nuevo \<in> allowed_targets (pe_estado p) \<longrightarrow>
            estado_persistido (fst (actualizar_estado_pedido db pid nuevo)) pid = Some nuevo)
       \<and> (nuevo \<notin> allowed_targets (pe_estado p) \<longrightarrow>
            actualizar_estado_pedido db pid nuevo =
              (get_db db, Inl (HTTPException 400
                 (if pe_estado p \<in> fst ` set transiciones_validas
                  then ''No se puede cambiar de '' @ comilla @ pe_estado p @ comilla
                           @ '' a '' @ comilla @ nuevo @ comilla @ ''.''
                  else ''Estado actual desconocido: '' @ pe_estado p))))
       \<and> (pe_estado p \<notin> fst ` set tabla_spec \<or> pe_estado p = ''entregado''
            \<or> pe_estado p = ''cancelado'' \<longrightarrow>
            (\<exists>e. actualizar_estado_pedido db pid nuevo = (get_db db, Inl e)))"
proof -
  let ?res = "actualizar_estado_pedido db pid nuevo"
  have ok: "nuevo \<in> allowed_targets (pe_estado p) \<Longrightarrow>
              (\<exists>s r. ?res = (s, Inr r)) \<and> estado_persistido (fst ?res) pid = Some nuevo"
  proof -
    assume a: "nuevo \<in> allowed_targets (pe_estado p)"
    from actualizar_ok [OF assms a] obtain r where
      r: "?res = (db_commit (set_pedido pid (\<lambda>q. q\<lparr>pe_estado := nuevo\<rparr>) (get_db db)), Inr r)"
      by blast
    then show ?thesis
      by (simp add: estado_persistido_set_pedido assms)
  qed
  have no: "nuevo \<notin> allowed_targets (pe_estado p) \<Longrightarrow> \<not> (\<exists>s r. ?res = (s, Inr r))"
    using actualizar_rechazo [OF assms] by simp
  have terminal: "pe_estado p \<notin> fst ` set tabla_spec \<or> pe_estado p = ''entregado''
                    \<or> pe_estado p = ''cancelado'' \<Longrightarrow> nuevo \<notin> allowed_targets (pe_estado p)"
    by (auto simp: allowed_targets_def tabla_spec_def map_of_eq_None_iff [symmetric]
        split: option.splits)
  show ?thesis
    using ok no terminal actualizar_rechazo [OF assms] by blast
qed

theorem transition_iff_allowed_witness:
  "find (\<lambda>p. pe_id p = ''1'') (t_pedido db_demo) = Some (pedido_demo ''1'' ''pendiente'')
   \<and> estado_persistido (fst (actualizar_estado_pedido db_demo ''1'' ''en_preparacion'')) ''1''
       = Some ''en_preparacion''
   \<and> (\<exists>e. actualizar_estado_pedido db_demo ''1'' ''en_camino'' = (get_db db_demo, Inl e))"
proof -
  have h: "find (\<lambda>p. pe_id p = ''1'') (t_pedido db_demo) = Some (pedido_demo ''1'' ''pendiente'')"
    by (simp add: db_demo_def pedido_demo_def)
  have a: "''en_preparacion'' \<in> allowed_targets (pe_estado (pedido_demo ''1'' ''pendiente''))"
    by (simp add: allowed_targets_def tabla_spec_def pedido_demo_def)
  have b: "''en_camino'' \<notin> allowed_targets (pe_estado (pedido_demo ''1'' ''pendiente''))"
    by (simp add: allowed_targets_def tabla_spec_def pedido_demo_def)
  show ?thesis
    using h a b transition_iff_allowed [OF h, of "''en_preparacion''"]
      transition_iff_allowed [OF h, of "''en_camino''"]
    by simp
qed

section \<open>Manual status changes and the confirmation invariant\<close>

lemma find_update_first_otro:
  assumes "\<And>x. pe_id (f x) = pe_id x"
  shows "find (\<lambda>q. pe_id q = i) (update_first (\<lambda>q. pe_id q = pid) f xs) =
           (if i = pid then map_option f (find (\<lambda>q. pe_id q = pid) xs)
            else find (\<lambda>q. pe_id q = i) xs)"
  using assms by (induction xs) auto

lemma estado_de_update:
  "estado_de (db\<lparr>t_pedido := update_first (\<lambda>q. pe_id q = pid) (\<lambda>q. q\<lparr>pe_estado := e\<rparr>)
                               (t_pedido db)\<rparr>) i =
     (if i = pid then map_option (\<lambda>_. e) (estado_de db pid) else estado_de db i)"
  by (simp add: estado_de_def find_update_first_otro option.map_comp comp_def)

lemma estado_de_controles [simp]:
  "estado_de (db\<lparr>t_control_entrega := cs\<rparr>) i = estado_de db i"
  by (simp add: estado_de_def)

lemma inv_intro:
  assumes "inv_confirmacion db"
    and "\<And>c. c \<in> set (t_control_entrega db') \<Longrightarrow> ce_confirmacion_entrega c = 1 \<Longrightarrow>
           ce_pedido_id c = pid \<Longrightarrow> estado_de db' pid = Some ''entregado''"
    and "\<And>c. c \<in> set (t_control_entrega db') \<Longrightarrow> ce_confirmacion_entrega c = 1 \<Longrightarrow>
           ce_pedido_id c \<noteq> pid \<Longrightarrow> c \<in> set (t_control_entrega db)"
    and "\<And>i. i \<noteq> pid \<Longrightarrow> estado_de db' i = estado_de db i"
  shows "inv_confirmacion db'"
  unfolding inv_confirmacion_def list_all_iff
proof (intro ballI impI)
  fix c assume c: "c \<in> set (t_control_entrega db')" "ce_confirmacion_entrega c = 1"
  show "estado_de db' (ce_pedido_id c) = Some ''entregado''"
  proof (cases "ce_pedido_id c = pid")
    case True
    with assms(2) c show ?thesis by simp
  next
    case False
    with assms(3) c have "c \<in> set (t_control_entrega db)" by simp
    with assms(1) c have "estado_de db (ce_pedido_id c) = Some ''entregado''"
      by (simp add: inv_confirmacion_def list_all_iff)
    with assms(4) False show ?thesis by simp
  qed
qed

lemma inv_D:
  "inv_confirmacion db \<Longrightarrow> c \<in> set (t_control_entrega db) \<Longrightarrow> ce_confirmacion_entrega c = 1
     \<Longrightarrow> estado_de db (ce_pedido_id c) = Some ''entregado''"
  by (simp add: inv_confirmacion_def list_all_iff)

lemma cambiar_committed:
  "committed (fst (actualizar_estado_pedido db pid nuevo)) =
     (case find (\<lambda>p. pe_id p = pid) (t_pedido db) of
        None \<Rightarrow> db
      | Some p \<Rightarrow>
          if nuevo \<in> allowed_targets (pe_estado p)
          then db\<lparr>t_pedido := update_first (\<lambda>q. pe_id q = pid) (\<lambda>q. q\<lparr>pe_estado := nuevo\<rparr>)
                                 (t_pedido db)\<rparr>
          else db)"
  by (auto simp: actualizar_estado_pedido_def Let_def allowed_targets_code query_pedido_def
      get_db_def db_commit_def set_pedido_def split: option.splits)

lemma allowed_entregado [simp]: "allowed_targets ''entregado'' = {}"
  by (simp add: allowed_targets_def tabla_spec_def)

lemma inv_cambiar:
  assumes "inv_confirmacion db"
  shows "inv_confirmacion (committed (fst (actualizar_estado_pedido db pid nuevo)))"
proof (cases "find (\<lambda>p. pe_id p = pid) (t_pedido db)")
  case None
  with assms show ?thesis by (simp add: cambiar_committed)
next
  case (Some p)
  show ?thesis
  proof (cases "nuevo \<in> allowed_targets (pe_estado p)")
    case False
    with Some assms show ?thesis by (simp add: cambiar_committed)
  next
    case True
    then have ne: "pe_estado p \<noteq> ''entregado''" by auto
    have e: "estado_de db pid = Some (pe_estado p)" using Some by (simp add: estado_de_def)
    show ?thesis
      unfolding cambiar_committed Some option.case if_P [OF True]
    proof (rule inv_intro [OF assms, where pid = pid])
      fix c assume "c \<in> set (t_control_entrega (db\<lparr>t_pedido := update_first (\<lambda>q. pe_id q = pid) (\<lambda>q. q\<lparr>pe_estado := nuevo\<rparr>) (t_pedido db)\<rparr>))"
        "ce_confirmacion_entrega c = 1" "ce_pedido_id c = pid"
      with inv_D [OF assms, of c] e ne
      show "estado_de (db\<lparr>t_pedido := update_first (\<lambda>q. pe_id q = pid) (\<lambda>q. q\<lparr>pe_estado := nuevo\<rparr>) (t_pedido db)\<rparr>) pid = Some ''entregado''"
        by simp
    qed (simp_all add: estado_de_update)
  qed
qed



section \<open>Names the router modules do not bind\<close>

lemma datetime_sin_importar:
  "nombre_global modulo_admin_pedidos ''datetime'' = Some (Unhandled ''NameError'')"
  by (simp add: nombre_global_def modulo_admin_pedidos_def)

lemma modelos_sin_importar_repartidor:
  "nombre_global modulo_repartidor ''ControlEntrega'' = Some (Unhandled ''NameError'')"
  "nombre_global modulo_repartidor ''Pedido'' = Some (Unhandled ''NameError'')"
  by (simp_all add: nombre_global_def modulo_repartidor_def)

lemma modelos_sin_importar_cliente:
  "nombre_global modulo_cliente_pedido ''Cliente'' = Some (Unhandled ''NameError'')"
  "nombre_global modulo_cliente_pedido ''Pedido'' = Some (Unhandled ''NameError'')"
  "nombre_global modulo_cliente_pedido ''ControlEntrega'' = Some (Unhandled ''NameError'')"
  by (simp_all add: nombre_global_def modulo_cliente_pedido_def)

section \<open>What the delivery and creation handlers do\<close>

lemma estado_persistido_estado_de:
  "estado_persistido s pid = estado_de (committed s) pid"
  by (simp add: estado_persistido_def estado_de_def)

lemma asignar_sin_commit:
  "committed (fst (asignar_pedido_a_repartidor env db pid rid)) = db"
  by (simp add: asignar_pedido_a_repartidor_def Let_def datetime_sin_importar
      generate_uint64_key_def set_control_def get_db_def split: option.splits)

lemma asignar_sin_respuesta:
  "snd (asignar_pedido_a_repartidor env db pid rid) \<noteq> Inr r"
  by (simp add: asignar_pedido_a_repartidor_def Let_def datetime_sin_importar
      generate_uint64_key_def split: option.splits)

lemma asignar_con_todo:
  assumes "find (\<lambda>p. pe_id p = pid) (t_pedido db) = Some p"
    and "find (\<lambda>r. re_id r = rid) (t_repartidor db) = Some r"
  shows "snd (asignar_pedido_a_repartidor env db pid rid) = Inl (Unhandled ''NameError'')"
  using assms
  by (simp add: asignar_pedido_a_repartidor_def Let_def datetime_sin_importar
      generate_uint64_key_def query_pedido_def query_repartidor_def get_db_def
      split: option.splits)

lemma completado_error:
  "marcar_pedido_completado env db pid = (get_db db, Inl (Unhandled ''NameError''))"
  by (simp add: marcar_pedido_completado_def Let_def modelos_sin_importar_repartidor)

lemma recibido_error:
  "marcar_pedido_recibido env db pid = (get_db db, Inl (Unhandled ''NameError''))"
  by (simp add: marcar_pedido_recibido_def Let_def modelos_sin_importar_cliente)

lemma devuelto_error:
  "marcar_pedido_devuelto env db pid = (get_db db, Inl (Unhandled ''NameError''))"
  by (simp add: marcar_pedido_devuelto_def Let_def modelos_sin_importar_repartidor)

lemma crear_pedido_error:
  "crear_pedido env db cid data = (get_db db, Inl (Unhandled ''NameError''))"
  by (simp add: crear_pedido_def Let_def modelos_sin_importar_cliente)

lemma especializado_error:
  "crear_pedido_especializado env db cid form = (get_db db, Inl (Unhandled ''NameError''))"
  by (simp add: crear_pedido_especializado_def Let_def modelos_sin_importar_cliente)

lemma committed_get_db [simp]: "committed (get_db db) = db"
  by (simp add: get_db_def)

lemma cancelado_tras_transicion:
  assumes "estado_de db pid = Some ''cancelado''"
  shows "estado_de (committed (fst (actualizar_estado_pedido db pid' nuevo))) pid
           = Some ''cancelado''"
proof (cases "find (\<lambda>p. pe_id p = pid') (t_pedido db)")
  case None
  with assms show ?thesis by (simp add: cambiar_committed)
next
  case (Some p)
  show ?thesis
  proof (cases "pid' = pid")
    case True
    with Some assms have "pe_estado p = ''cancelado''"
      by (simp add: estado_de_def)
    then have "allowed_targets (pe_estado p) = {}"
      by (simp add: allowed_targets_def tabla_spec_def)
    with Some assms show ?thesis by (simp add: cambiar_committed)
  next
    case False
    with Some assms show ?thesis
      by (simp add: cambiar_committed estado_de_update)
  qed
qed

text \<open>
  C4. An order whose status is \<^verbatim>\<open>cancelado\<close> keeps that status in the committed store
  after a request to any handler of the core, for any order, courier or customer the
  request names: assignment, delivery confirmation by the customer or by the courier,
  return, manual status change, and the two creation handlers. Assignment and the two
  confirmation routes leave the store as it was; the manual change rejects every
  target for a cancelled order and, for another order, rewrites that order only.
\<close>

theorem cancelado_permanece:
  assumes "estado_de db pid = Some ''cancelado''"
  shows "estado_persistido (fst (asignar_pedido_a_repartidor env db pid' rid)) pid
           = Some ''cancelado''
       \<and> estado_persistido (fst (marcar_pedido_recibido env db pid')) pid = Some ''cancelado''
       \<and> estado_persistido (fst (marcar_pedido_completado env db pid')) pid = Some ''cancelado''
       \<and> estado_persistido (fst (marcar_pedido_devuelto env db pid')) pid = Some ''cancelado''
       \<and> estado_persistido (fst (actualizar_estado_pedido db pid' nuevo)) pid = Some ''cancelado''
       \<and> estado_persistido (fst (crear_pedido env db cid data)) pid = Some ''cancelado''
       \<and> estado_persistido (fst (crear_pedido_especializado env db cid form)) pid
           = Some ''cancelado''"
  using assms cancelado_tras_transicion [OF assms, of pid' nuevo]
  by (simp add: estado_persistido_estado_de asignar_sin_commit recibido_error completado_error
      devuelto_error crear_pedido_error especializado_error)

theorem cancelado_permanece_witness:
  "estado_de db_demo ''4'' = Some ''cancelado''
   \<and> estado_persistido (fst (asignar_pedido_a_repartidor env_demo db_demo ''4'' ''r2'')) ''4''
       = Some ''cancelado''
   \<and> estado_persistido (fst (marcar_pedido_recibido env_demo db_demo ''4'')) ''4''
       = Some ''cancelado''
   \<and> estado_persistido (fst (marcar_pedido_completado env_demo db_demo ''4'')) ''4''
       = Some ''cancelado''"
proof -
  have h: "estado_de db_demo ''4'' = Some ''cancelado''"
    by (simp add: estado_de_def db_demo_def pedido_demo_def)
  show ?thesis
    using h cancelado_permanece [OF h, of env_demo "''4''" "''r2''"]
    by simp
qed

lemma inv_ejecutar:
  "inv_confirmacion db \<Longrightarrow> inv_confirmacion (ejecutar op db)"
  by (cases op)
     (simp_all add: asignar_sin_commit completado_error recibido_error devuelto_error inv_cambiar)

text \<open>
  C5. A store in which every delivery-control record with \<^verbatim>\<open>confirmacion_entrega = 1\<close>
  belongs to an order whose \<^verbatim>\<open>estado\<close> is \<^verbatim>\<open>entregado\<close> keeps that property after any
  sequence of assignment, delivery-confirmation (courier or customer route), return and
  manual status-change requests, whether each request succeeds or is rejected.
\<close>

theorem confirmacion_implica_entregado:
  assumes "inv_confirmacion db"
  shows "inv_confirmacion (ejecutar_todas ops db)"
  using assms unfolding ejecutar_todas_def
  by (induction ops arbitrary: db) (simp_all add: inv_ejecutar)

theorem confirmacion_implica_entregado_witness:
  "inv_confirmacion db_demo
   \<and> inv_confirmacion
       (ejecutar_todas [Asignar env_demo ''3'' ''r2'', Recibido env_demo ''2'',
                        CambiarEstado ''2'' ''entregado'', Devuelto env_demo ''4''] db_demo)"
proof -
  have h: "inv_confirmacion db_demo"
    by (simp add: inv_confirmacion_def estado_de_def db_demo_def db_vacia_def pedido_demo_def
        control_demo_def)
  show ?thesis
    using h confirmacion_implica_entregado [OF h] by simp
qed

section \<open>The handlers on the example store\<close>

lemma demo_pedidos:
  "estado_de db_demo ''2'' = Some ''en_camino''"
  "estado_de db_demo ''3'' = Some ''entregado''"
  "query_pedido (get_db db_demo) ''2'' = Some (pedido_demo ''2'' ''en_camino'')"
  by (simp_all add: estado_de_def query_pedido_def get_db_def db_demo_def pedido_demo_def)

lemma demo_controles:
  "control_persistido (get_db db_demo) ''1'' = None"
  "control_persistido (get_db db_demo) ''2'' = Some (control_demo ''e2'' ''2'' 0)"
  "control_persistido (get_db db_demo) ''3'' = Some (control_demo ''e3'' ''3'' 1)"
  by (simp_all add: control_persistido_def get_db_def db_demo_def control_demo_def)

lemma demo_repartidor:
  "query_repartidor (get_db db_demo) ''r2''
     = Some \<lparr>re_id = ''r2'', re_nombre = ''Luis'', re_telefono = ''222''\<rparr>"
  by (simp add: query_repartidor_def get_db_def db_demo_def)

text \<open>
  C6. The assignment handler on order 2 of the example store, which is \<^verbatim>\<open>en_camino\<close>
  and has a delivery-control record for courier \<^verbatim>\<open>r1\<close>, with the existing courier
  \<^verbatim>\<open>r2\<close>: the handler leaves with \<^verbatim>\<open>NameError\<close> at \<^verbatim>\<open>datetime.now()\<close>, nothing is
  committed, and the record still names courier \<^verbatim>\<open>r1\<close> with its old timestamp.
\<close>

theorem reasignacion_en_camino_falla:
  "estado_de db_demo ''2'' = Some ''en_camino''
   \<and> control_persistido (get_db db_demo) ''2'' = Some (control_demo ''e2'' ''2'' 0)
   \<and> ce_repartidor_id (control_demo ''e2'' ''2'' 0) = Some ''r1''
   \<and> query_repartidor (get_db db_demo) ''r2''
        = Some \<lparr>re_id = ''r2'', re_nombre = ''Luis'', re_telefono = ''222''\<rparr>
   \<and> snd (asignar_pedido_a_repartidor env_demo db_demo ''2'' ''r2'')
        = Inl (Unhandled ''NameError'')
   \<and> committed (fst (asignar_pedido_a_repartidor env_demo db_demo ''2'' ''r2'')) = db_demo
   \<and> control_persistido (fst (asignar_pedido_a_repartidor env_demo db_demo ''2'' ''r2'')) ''2''
        = Some (control_demo ''e2'' ''2'' 0)"
proof -
  have p: "find (\<lambda>p. pe_id p = ''2'') (t_pedido db_demo) = Some (pedido_demo ''2'' ''en_camino'')"
    by (simp add: db_demo_def pedido_demo_def)
  have r: "find (\<lambda>r. re_id r = ''r2'') (t_repartidor db_demo)
             = Some \<lparr>re_id = ''r2'', re_nombre = ''Luis'', re_telefono = ''222''\<rparr>"
    by (simp add: db_demo_def)
  have c: "control_persistido (fst (asignar_pedido_a_repartidor env_demo db_demo ''2'' ''r2'')) ''2''
             = control_persistido (get_db db_demo) ''2''"
    by (simp add: control_persistido_def asignar_sin_commit)
  show ?thesis
    by (simp add: asignar_con_todo [OF p r] asignar_sin_commit c demo_pedidos demo_controles
        demo_repartidor control_demo_def)
qed

text \<open>
  C7. Both delivery-confirmation routes on order 3 of the example store, which is
  \<^verbatim>\<open>entregado\<close> with a confirmed delivery-control record: each leaves with
  \<^verbatim>\<open>NameError\<close> on the session as opened, so the repeated confirmation does not succeed.
\<close>

theorem confirmacion_repetida_falla:
  "estado_de db_demo ''3'' = Some ''entregado''
   \<and> control_persistido (get_db db_demo) ''3'' = Some (control_demo ''e3'' ''3'' 1)
   \<and> marcar_pedido_completado env_demo db_demo ''3''
        = (get_db db_demo, Inl (Unhandled ''NameError''))
   \<and> marcar_pedido_recibido env_demo db_demo ''3''
        = (get_db db_demo, Inl (Unhandled ''NameError''))"
  by (simp add: demo_pedidos demo_controles completado_error recibido_error)

text \<open>
  C9. The return handler on three orders of the example store: order 1 without a
  delivery-control record, order 3 which is \<^verbatim>\<open>entregado\<close>, and order 2 which is
  \<^verbatim>\<open>en_camino\<close> with a record. Each request leaves with \<^verbatim>\<open>NameError\<close> on the session as
  opened; there is no 404 answer, no 400 answer, and order 2 stays \<^verbatim>\<open>en_camino\<close>.
\<close>

theorem devuelto_falla:
  "control_persistido (get_db db_demo) ''1'' = None
   \<and> marcar_pedido_devuelto env_demo db_demo ''1''
        = (get_db db_demo, Inl (Unhandled ''NameError''))
   \<and> estado_de db_demo ''3'' = Some ''entregado''
   \<and> control_persistido (get_db db_demo) ''3'' = Some (control_demo ''e3'' ''3'' 1)
   \<and> marcar_pedido_devuelto env_demo db_demo ''3''
        = (get_db db_demo, Inl (Unhandled ''NameError''))
   \<and> estado_de db_demo ''2'' = Some ''en_camino''
   \<and> control_persistido (get_db db_demo) ''2'' = Some (control_demo ''e2'' ''2'' 0)
   \<and> marcar_pedido_devuelto env_demo db_demo ''2''
        = (get_db db_demo, Inl (Unhandled ''NameError''))
   \<and> estado_persistido (fst (marcar_pedido_devuelto env_demo db_demo ''2'')) ''2''
        = Some ''en_camino''"
  by (simp add: demo_pedidos demo_controles devuelto_error estado_persistido_estado_de)

lemma demo_clientes:
  "query_cliente (get_db db_demo) ''c9'' = None"
  "query_cliente (get_db db_demo) ''c1'' = Some \<lparr>cl_id = ''c1''\<rparr>"
  "query_direccion (get_db db_demo) (Some ''d1'') ''c1''
     = Some \<lparr>di_id = ''d1'', di_cliente_id = ''c1''\<rparr>"
  "query_mascota (get_db db_demo) ''m1'' ''c1'' = Some \<lparr>rm_id = ''m1'', rm_cliente_id = ''c1''\<rparr>"
  by (simp_all add: query_cliente_def query_direccion_def query_mascota_def get_db_def
      db_demo_def)

text \<open>
  C8. Order creation for a customer that does not exist, and for an existing customer
  with an address of their own, one line item and a positive total: each request leaves
  with \<^verbatim>\<open>NameError\<close> on the session as opened. There is no 404 answer for the missing
  customer and no order is persisted for the valid request.
\<close>

theorem crear_pedido_falla:
  "query_cliente (get_db db_demo) ''c9'' = None
   \<and> crear_pedido env_demo db_demo ''c9'' (data_demo ''d1'')
        = (get_db db_demo, Inl (Unhandled ''NameError''))
   \<and> query_cliente (get_db db_demo) ''c1'' = Some \<lparr>cl_id = ''c1''\<rparr>
   \<and> query_direccion (get_db db_demo) (Some ''d1'') ''c1''
        = Some \<lparr>di_id = ''d1'', di_cliente_id = ''c1''\<rparr>
   \<and> pd_direccion_id (data_demo ''d1'') = Some ''d1''
   \<and> crear_pedido env_demo db_demo ''c1'' (data_demo ''d1'')
        = (get_db db_demo, Inl (Unhandled ''NameError''))
   \<and> t_pedido (committed (fst (crear_pedido env_demo db_demo ''c1'' (data_demo ''d1''))))
        = t_pedido db_demo"
  by (simp add: demo_clientes crear_pedido_error data_demo_def)

text \<open>
  C2. Specialised-order creation for an existing customer and pet with the allergy list
  \<^verbatim>\<open>[5, 5]\<close>: the request leaves with \<^verbatim>\<open>NameError\<close> on the session as opened, no allergy
  row is persisted and no summary is returned.
\<close>

theorem alergias_duplicadas_falla:
  "ef_alergias_ids (form_demo (Some ''[5, 5]'') None) = Some ''[5, 5]''
   \<and> json_loads env_demo ''[5, 5]'' = Some (JList [JInt 5, JInt 5])
   \<and> query_cliente (get_db db_demo) ''c1'' = Some \<lparr>cl_id = ''c1''\<rparr>
   \<and> query_mascota (get_db db_demo) ''m1'' ''c1'' = Some \<lparr>rm_id = ''m1'', rm_cliente_id = ''c1''\<rparr>
   \<and> crear_pedido_especializado env_demo db_demo ''c1'' (form_demo (Some ''[5, 5]'') None)
        = (get_db db_demo, Inl (Unhandled ''NameError''))
   \<and> t_alergia_mascota
        (committed (fst (crear_pedido_especializado env_demo db_demo ''c1''
                           (form_demo (Some ''[5, 5]'') None)))) = []
   \<and> resumen_de (snd (crear_pedido_especializado env_demo db_demo ''c1''
                         (form_demo (Some ''[5, 5]'') None))) = None"
proof -
  have l: "json_loads env_demo ''[5, 5]'' = Some (JList [JInt 5, JInt 5])"
    by (simp add: env_demo_def)
  have t: "t_alergia_mascota db_demo = []"
    by (simp add: db_demo_def db_vacia_def)
  show ?thesis
    by (simp add: l t demo_clientes especializado_error form_demo_def resumen_de_def)
qed

text \<open>
  C3. Specialised-order creation with text in \<^verbatim>\<open>condiciones_salud\<close> that
  \<^verbatim>\<open>json.loads\<close> rejects: the request leaves with \<^verbatim>\<open>NameError\<close> on the session as
  opened, not with a 400 answer.
\<close>

theorem json_invalido_falla:
  "ef_condiciones_salud (form_demo None (Some ''{mal'')) = Some ''{mal''
   \<and> json_loads env_demo ''{mal'' = None
   \<and> crear_pedido_especializado env_demo db_demo ''c1'' (form_demo None (Some ''{mal''))
        = (get_db db_demo, Inl (Unhandled ''NameError''))"
  by (simp add: especializado_error form_demo_def env_demo_def texto_condiciones_demo_def)

text \<open>
  C10. Specialised-order creation with a condition list whose first entry is an object
  without \<^verbatim>\<open>nombre\<close>: the request leaves with \<^verbatim>\<open>NameError\<close> on the session as opened, no
  condition row is persisted and no summary is returned.
\<close>

theorem entradas_sin_nombre_falla:
  "ef_condiciones_salud (form_demo None (Some texto_condiciones_demo))
     = Some texto_condiciones_demo
   \<and> json_loads env_demo texto_condiciones_demo
        = Some (JList [JDict [], JDict [(''nombre'', JStr ''renal'')]])
   \<and> crear_pedido_especializado env_demo db_demo ''c1''
        (form_demo None (Some texto_condiciones_demo))
        = (get_db db_demo, Inl (Unhandled ''NameError''))
   \<and> t_condicion_salud
        (committed (fst (crear_pedido_especializado env_demo db_demo ''c1''
                           (form_demo None (Some texto_condiciones_demo))))) = []
   \<and> resumen_de (snd (crear_pedido_especializado env_demo db_demo ''c1''
                         (form_demo None (Some texto_condiciones_demo)))) = None"
proof -
  have l: "json_loads env_demo texto_condiciones_demo
             = Some (JList [JDict [], JDict [(''nombre'', JStr ''renal'')]])"
    by (simp add: env_demo_def texto_condiciones_demo_def)
  have t: "t_condicion_salud db_demo = []"
    by (simp add: db_demo_def db_vacia_def)
  show ?thesis
    by (simp add: l t especializado_error form_demo_def resumen_de_def)
qed

end
